theory Spec2Isabelle
  imports Complex_Main
begin

section \<open>The chat client of \<^verbatim>\<open>static/js/app.js\<close>\<close>

text \<open>
  The script is an event-driven controller: three module-level variables, four page
  elements, and handlers that run to completion between events. An \<^verbatim>\<open>async\<close> handler
  runs up to its first \<^verbatim>\<open>await\<close>, is parked as a pending task, and is resumed by the
  event that settles the awaited promise. The model is a state record, one function per
  source function (split at the \<^verbatim>\<open>await\<close>s), and a step function over events.

  The Markdown parser, the sanitizer and the browser's HTML parser are parameters of the
  model: \<^verbatim>\<open>marked.parse\<close> returns a string for a string and throws for anything else,
  \<^verbatim>\<open>DOMPurify.sanitize\<close> returns a string, and the browser builds elements from the string
  assigned to \<^verbatim>\<open>innerHTML\<close>. The two lookups of the script (by the class
  \<^verbatim>\<open>welcome-message\<close> under the container, by an id in the document) search in document
  order, the elements of earlier replies included.

  Outside the model: layout (the scroll position of the container) and the page around the
  container, which is taken to hold no element with the id \<^verbatim>\<open>loading-indicator\<close>.
\<close>

subsection \<open>Strings and JSON values\<close>

text \<open>A JavaScript string is a sequence of UTF-16 code units.\<close>

type_synonym jsstring = "nat list"

definition lit :: "string \<Rightarrow> jsstring" where
  "lit s = map of_char s"

text \<open>
  \<^verbatim>\<open>String.prototype.trim\<close> strips WhiteSpace and LineTerminator code points from both
  ends: TAB, LF, VT, FF, CR, SP, NBSP, U+1680, U+2000..U+200A, U+2028, U+2029, U+202F,
  U+205F, U+3000 and U+FEFF.
\<close>

definition is_ws :: "nat \<Rightarrow> bool" where
  "is_ws c \<longleftrightarrow>
     c = 0x09 \<or> c = 0x0A \<or> c = 0x0B \<or> c = 0x0C \<or> c = 0x0D \<or> c = 0x20 \<or> c = 0xA0 \<or>
     c = 0x1680 \<or> (0x2000 \<le> c \<and> c \<le> 0x200A) \<or> c = 0x2028 \<or> c = 0x2029 \<or>
     c = 0x202F \<or> c = 0x205F \<or> c = 0x3000 \<or> c = 0xFEFF"

definition trim :: "jsstring \<Rightarrow> jsstring" where
  "trim s = rev (dropWhile is_ws (rev (dropWhile is_ws s)))"

text \<open>
  The numbers \<^verbatim>\<open>JSON.parse\<close> returns: a finite double (taken by its value), minus zero, or
  an infinity, for a literal beyond the range of doubles such as \<^verbatim>\<open>1e400\<close>. They are never
  computed with, only stored and written back.
\<close>

datatype number = Finite real | MinusZero | PlusInfinity | MinusInfinity

text \<open>
  A value \<^verbatim>\<open>JSON.parse\<close> returns; an object is the list of its own properties in the order
  of enumeration.
\<close>

datatype json =
    JNull
  | JBool bool
  | JNum number
  | JStr jsstring
  | JArr "json list"
  | JObj "(jsstring \<times> json) list"

text \<open>A JavaScript value that came out of JSON, or \<^verbatim>\<open>undefined\<close> (\<open>None\<close>).\<close>

type_synonym jsval = "json option"

datatype js_error =
    NetworkFailure    \<comment> \<open>\<^verbatim>\<open>fetch\<close> rejected\<close>
  | RequestFailed     \<comment> \<open>the \<^verbatim>\<open>Error\<close> thrown at line 137 for \<^verbatim>\<open>!response.ok\<close>\<close>
  | BodyUnreadable    \<comment> \<open>\<^verbatim>\<open>response.json()\<close> rejected\<close>
  | NullDereference   \<comment> \<open>TypeError: reading a property of \<^verbatim>\<open>null\<close>\<close>
  | MarkedInput       \<comment> \<open>the \<^verbatim>\<open>Error\<close> of \<^verbatim>\<open>marked.parse\<close> for an input that is not a string\<close>

text \<open>
  \<^verbatim>\<open>data.session_id\<close> and \<^verbatim>\<open>data.response\<close>: reading a property that no built-in prototype
  defines. On \<^verbatim>\<open>null\<close> it throws; on an object it is the own property (the last one
  listed, should a key be listed twice) or \<^verbatim>\<open>undefined\<close>; on any other value it is
  \<^verbatim>\<open>undefined\<close>.
\<close>

fun get_prop :: "json \<Rightarrow> jsstring \<Rightarrow> js_error + jsval" where
  "get_prop JNull k = Inl NullDereference"
| "get_prop (JObj kvs) k = Inr (map_of (rev kvs) k)"
| "get_prop _ k = Inr None"

text \<open>
  The value a reader of JSON gets back from the text \<^verbatim>\<open>JSON.stringify\<close> writes for a
  value: an infinity is written \<^verbatim>\<open>null\<close> and minus zero \<^verbatim>\<open>0\<close>, inside arrays and objects
  as well; everything else is written as it is.
\<close>

fun stringify :: "json \<Rightarrow> json" where
  "stringify (JNum (Finite x)) = JNum (Finite x)"
| "stringify (JNum MinusZero) = JNum (Finite 0)"
| "stringify (JNum PlusInfinity) = JNull"
| "stringify (JNum MinusInfinity) = JNull"
| "stringify (JArr vs) = JArr (map stringify vs)"
| "stringify (JObj kvs) = JObj (map (map_prod id stringify) kvs)"
| "stringify JNull = JNull"
| "stringify (JBool b) = JBool b"
| "stringify (JStr t) = JStr t"

subsection \<open>The page\<close>

datatype role = User | Assistant

text \<open>
  An element the browser built from markup: its tag, its \<^verbatim>\<open>id\<close> attribute if it has one,
  its classes and its element children. Text is not an element and is never looked up.
\<close>

datatype elem =
  Elem (elem_tag: jsstring) (elem_id: "jsstring option") (elem_classes: "jsstring list")
       (elem_children: "elem list")

text \<open>
  What a message row shows: \<^verbatim>\<open>textContent = content\<close> (inert text), or
  \<^verbatim>\<open>innerHTML = html\<close> (markup): the string that was assigned, and the elements now under
  the row.
\<close>

datatype content = TextContent jsval | InnerHTML jsstring "elem list"

text \<open>
  The element children of \<^verbatim>\<open>#chatContainer\<close>: the welcome block
  (\<^verbatim>\<open>div.welcome-message\<close>), a message row (\<^verbatim>\<open>div.message.<role>\<close> holding the avatar of
  the role and the content), and the typing row (\<^verbatim>\<open>div.message.assistant#loading-indicator\<close>).
\<close>

datatype node = WelcomeMessage | Message role content | LoadingIndicator

fun node_id :: "node \<Rightarrow> jsstring option" where
  "node_id LoadingIndicator = Some (lit ''loading-indicator'')"
| "node_id _ = None"

fun node_classes :: "node \<Rightarrow> jsstring list" where
  "node_classes WelcomeMessage = [lit ''welcome-message'']"
| "node_classes (Message User c) = [lit ''message'', lit ''user'']"
| "node_classes (Message Assistant c) = [lit ''message'', lit ''assistant'']"
| "node_classes LoadingIndicator = [lit ''message'', lit ''assistant'']"

text \<open>
  The two lookups of the script: \<^verbatim>\<open>chatContainer.querySelector('.welcome-message')\<close> and
  \<^verbatim>\<open>document.getElementById(id)\<close>. Each returns the first match in document order: a row
  comes before the elements under it, and these before the next row.
\<close>

datatype lookup = WelcomeClass | HasId jsstring

fun node_matches :: "lookup \<Rightarrow> node \<Rightarrow> bool" where
  "node_matches WelcomeClass n = (lit ''welcome-message'' \<in> set (node_classes n))"
| "node_matches (HasId i) n = (node_id n = Some i)"

fun elem_matches :: "lookup \<Rightarrow> elem \<Rightarrow> bool" where
  "elem_matches WelcomeClass e = (lit ''welcome-message'' \<in> set (elem_classes e))"
| "elem_matches (HasId i) e = (elem_id e = Some i)"

text \<open>
  \<^verbatim>\<open>el = lookup; if (el) el.remove()\<close>, on the elements under a row and on the rows:
  \<open>None\<close> when the lookup finds nothing, the elements or rows without the match otherwise.
  The elements the script itself puts under a row (the avatar and its image, the content
  wrapper, the dots of the typing row, the text of the welcome block) have no id and none
  has the class \<^verbatim>\<open>welcome-message\<close>, so a lookup passes over them.
\<close>

fun remove_elem :: "lookup \<Rightarrow> elem list \<Rightarrow> elem list option" where
  "remove_elem q [] = None"
| "remove_elem q (Elem t i c cs # es) =
     (if elem_matches q (Elem t i c cs) then Some es
      else case remove_elem q cs of
             Some cs' \<Rightarrow> Some (Elem t i c cs' # es)
           | None \<Rightarrow> (case remove_elem q es of
                        Some es' \<Rightarrow> Some (Elem t i c cs # es')
                      | None \<Rightarrow> None))"

fun remove_under :: "lookup \<Rightarrow> node \<Rightarrow> node option" where
  "remove_under q (Message r (InnerHTML h es)) =
     (case remove_elem q es of Some es' \<Rightarrow> Some (Message r (InnerHTML h es')) | None \<Rightarrow> None)"
| "remove_under q n = None"

fun remove_node :: "lookup \<Rightarrow> node list \<Rightarrow> node list option" where
  "remove_node q [] = None"
| "remove_node q (n # ns) =
     (if node_matches q n then Some ns
      else case remove_under q n of
             Some n' \<Rightarrow> Some (n' # ns)
           | None \<Rightarrow> (case remove_node q ns of
                        Some ns' \<Rightarrow> Some (n # ns')
                      | None \<Rightarrow> None))"

definition remove_match :: "lookup \<Rightarrow> node list \<Rightarrow> node list" where
  "remove_match q v = (case remove_node q v of Some v' \<Rightarrow> v' | None \<Rightarrow> v)"

text \<open>
  The libraries the page may have loaded, and the browser: \<^verbatim>\<open>window.marked\<close> (its
  \<^verbatim>\<open>parse\<close>, on strings), \<^verbatim>\<open>window.DOMPurify\<close> (its \<^verbatim>\<open>sanitize\<close>), the elements built from
  a string assigned to \<^verbatim>\<open>innerHTML\<close>, and the \<^verbatim>\<open>scrollHeight\<close> of the textarea for a given
  text.
\<close>

record window =
  marked :: "(jsstring \<Rightarrow> jsstring) option"
  DOMPurify :: "(jsstring \<Rightarrow> jsstring) option"
  dom :: "jsstring \<Rightarrow> elem list"
  scrollHeight :: "jsstring \<Rightarrow> nat"

subsection \<open>Requests, pending tasks, the state\<close>

text \<open>Both requests are POSTs with a JSON content type; \<open>body\<close> is the value a reader of JSON
  gets from the text sent.\<close>

record request =
  url :: jsstring
  body :: "json option"

text \<open>What \<^verbatim>\<open>fetch\<close> settles with: rejection, or a response with its \<^verbatim>\<open>ok\<close> flag and what
  \<^verbatim>\<open>response.json()\<close> will settle with (\<open>None\<close>: it rejects).\<close>

datatype fetch_result = Rejected | Response bool "json option"

datatype caller = InitializeSession | HandleNewChat

text \<open>An \<^verbatim>\<open>async\<close> function parked at an \<^verbatim>\<open>await\<close>, with the locals it still needs.\<close>

datatype task =
    ChatFetch jsstring                  \<comment> \<open>\<^verbatim>\<open>handleSend\<close> at line 125, holding \<^verbatim>\<open>loadingId\<close>\<close>
  | ChatJson jsstring "json option"     \<comment> \<open>\<^verbatim>\<open>handleSend\<close> at line 140\<close>
  | SessionFetch caller                 \<comment> \<open>line 27 or line 235\<close>
  | SessionJson caller "json option"    \<comment> \<open>line 33 or line 241\<close>

datatype log_label = InitFailed | NewChatFailed | SendFailed

record state =
  currentSessionId :: jsval
  isWaitingResponse :: bool
  isComposing :: bool
  inputValue :: jsstring          \<comment> \<open>\<^verbatim>\<open>messageInput.value\<close>\<close>
  inputHeight :: nat              \<comment> \<open>\<^verbatim>\<open>messageInput.style.height\<close>, in px\<close>
  sendDisabled :: bool            \<comment> \<open>\<^verbatim>\<open>sendBtn.disabled\<close>\<close>
  chatContainer :: "node list"
  listening :: bool               \<comment> \<open>\<^verbatim>\<open>setupEventListeners\<close> has run\<close>
  pending :: "task list"
  requests :: "request list"      \<comment> \<open>every \<^verbatim>\<open>fetch\<close> issued so far\<close>
  console :: "(log_label \<times> js_error) list"

text \<open>
  The state once the script has been evaluated (lines 7 to 9), on a page whose container
  holds \<open>v0\<close>, whose textarea holds \<open>txt\<close> at height \<open>h\<close> and whose button is disabled or not.
\<close>

definition init_state :: "node list \<Rightarrow> jsstring \<Rightarrow> nat \<Rightarrow> bool \<Rightarrow> state" where
  "init_state v0 txt h dis =
     \<lparr> currentSessionId = Some (JStr (lit ''default'')),
       isWaitingResponse = False,
       isComposing = False,
       inputValue = txt,
       inputHeight = h,
       sendDisabled = dis,
       chatContainer = v0,
       listening = False,
       pending = [],
       requests = [],
       console = [] \<rparr>"

subsection \<open>Rendering\<close>

definition adjustTextareaHeight :: "window \<Rightarrow> state \<Rightarrow> state" where
  "adjustTextareaHeight w s = s\<lparr>inputHeight := min (scrollHeight w (inputValue s)) 200\<rparr>"

definition updateSendButton :: "state \<Rightarrow> state" where
  "updateSendButton s =
     (let hasText = (length (trim (inputValue s)) > 0)
      in s\<lparr>sendDisabled := (\<not> hasText \<or> isWaitingResponse s)\<rparr>)"

text \<open>
  Lines 167 to 172: what \<^verbatim>\<open>addMessage\<close> puts into the content wrapper. With both libraries
  loaded, assistant content goes through \<^verbatim>\<open>marked.parse\<close>, which throws unless it is given a
  string, and the sanitizer; everything else becomes text.
\<close>

definition markup :: "window \<Rightarrow> (jsstring \<Rightarrow> jsstring) \<Rightarrow> (jsstring \<Rightarrow> jsstring) \<Rightarrow> jsstring \<Rightarrow> content" where
  "markup w parse sanitize t = InnerHTML (sanitize (parse t)) (dom w (sanitize (parse t)))"

definition render :: "window \<Rightarrow> role \<Rightarrow> jsval \<Rightarrow> js_error + content" where
  "render w r c =
     (case (r, marked w, DOMPurify w) of
        (Assistant, Some parse, Some sanitize) \<Rightarrow>
          (case c of
             Some (JStr t) \<Rightarrow> Inr (markup w parse sanitize t)
           | _ \<Rightarrow> Inl MarkedInput)
      | _ \<Rightarrow> Inr (TextContent c))"

text \<open>Lines 159 to 181. When \<^verbatim>\<open>marked.parse\<close> throws, nothing has been appended yet.\<close>

definition addMessage :: "window \<Rightarrow> role \<Rightarrow> jsval \<Rightarrow> state \<Rightarrow> js_error + state" where
  "addMessage w r c s =
     (case render w r c of
        Inl err \<Rightarrow> Inl err
      | Inr shown \<Rightarrow> Inr (s\<lparr>chatContainer := chatContainer s @ [Message r shown]\<rparr>))"

definition addLoadingIndicator :: "state \<Rightarrow> jsstring \<times> state" where
  "addLoadingIndicator s =
     (lit ''loading-indicator'', s\<lparr>chatContainer := chatContainer s @ [LoadingIndicator]\<rparr>)"

text \<open>Lines 209 to 214.\<close>

definition removeLoadingIndicator :: "jsstring \<Rightarrow> state \<Rightarrow> state" where
  "removeLoadingIndicator i s = s\<lparr>chatContainer := remove_match (HasId i) (chatContainer s)\<rparr>"

text \<open>Lines 108 to 111: \<^verbatim>\<open>querySelector('.welcome-message')\<close>, removed when found.\<close>

definition removeWelcome :: "state \<Rightarrow> state" where
  "removeWelcome s = s\<lparr>chatContainer := remove_match WelcomeClass (chatContainer s)\<rparr>"

subsection \<open>Sending a message\<close>

definition apology :: jsstring where
  "apology = [0x62B1, 0x6B49, 0xFF0C, 0x53D1, 0x751F, 0x4E86, 0x9519, 0x8BEF, 0x3002,
              0x8BF7, 0x7A0D, 0x540E, 0x91CD, 0x8BD5, 0x3002]"

text \<open>
  \<^verbatim>\<open>JSON.stringify({message: message, session_id: currentSessionId})\<close>: a property whose
  value is \<^verbatim>\<open>undefined\<close> is left out, and any other value is written as \<^verbatim>\<open>JSON.stringify\<close>
  writes it.
\<close>

definition chat_body :: "jsstring \<Rightarrow> jsval \<Rightarrow> json" where
  "chat_body message sid =
     JObj ((lit ''message'', JStr message) #
           (case sid of None \<Rightarrow> [] | Some v \<Rightarrow> [(lit ''session_id'', stringify v)]))"

definition chat_request :: "jsstring \<Rightarrow> jsval \<Rightarrow> request" where
  "chat_request message sid = \<lparr> url = lit ''/api/chat'', body = Some (chat_body message sid) \<rparr>"

definition new_session_request :: request where
  "new_session_request = \<lparr> url = lit ''/api/new_session'', body = None \<rparr>"

text \<open>
  Lines 99 to 134: up to the \<^verbatim>\<open>await fetch\<close>. The call of \<^verbatim>\<open>addMessage\<close> at line 114 is
  outside the \<^verbatim>\<open>try\<close>: were it to throw, the function would end there.
\<close>

definition handleSend :: "window \<Rightarrow> state \<Rightarrow> state" where
  "handleSend w s =
     (let message = trim (inputValue s) in
      if message = [] \<or> isWaitingResponse s then s
      else
        let s1 = updateSendButton (adjustTextareaHeight w (s\<lparr>inputValue := []\<rparr>));
            s2 = removeWelcome s1
        in case addMessage w User (Some (JStr message)) s2 of
             Inl err \<Rightarrow> s2
           | Inr s3 \<Rightarrow>
               let (loadingId, s4) = addLoadingIndicator s3;
                   s5 = updateSendButton (s4\<lparr>isWaitingResponse := True\<rparr>)
               in s5\<lparr>requests := requests s5 @ [chat_request message (currentSessionId s5)],
                      pending := pending s5 @ [ChatFetch loadingId]\<rparr>)"

text \<open>
  Lines 148 to 151, the \<^verbatim>\<open>catch\<close> block, and lines 152 to 155, the \<^verbatim>\<open>finally\<close> block. Were
  the \<^verbatim>\<open>addMessage\<close> of the \<^verbatim>\<open>catch\<close> block to throw, the block would end there; the
  \<^verbatim>\<open>finally\<close> block runs in either case.
\<close>

definition handleSend_catch :: "window \<Rightarrow> jsstring \<Rightarrow> js_error \<Rightarrow> state \<Rightarrow> state" where
  "handleSend_catch w loadingId err s =
     (let s1 = removeLoadingIndicator loadingId (s\<lparr>console := console s @ [(SendFailed, err)]\<rparr>)
      in case addMessage w Assistant (Some (JStr apology)) s1 of
           Inl err' \<Rightarrow> s1
         | Inr s2 \<Rightarrow> s2)"

definition handleSend_finally :: "state \<Rightarrow> state" where
  "handleSend_finally s = updateSendButton (s\<lparr>isWaitingResponse := False\<rparr>)"

text \<open>A task that has run to its end leaves the pending list.\<close>

definition drop_nth :: "nat \<Rightarrow> 'a list \<Rightarrow> 'a list" where
  "drop_nth i xs = take i xs @ drop (Suc i) xs"

definition finish :: "nat \<Rightarrow> state \<Rightarrow> state" where
  "finish i s = s\<lparr>pending := drop_nth i (pending s)\<rparr>"

text \<open>Resuming at line 125 with what \<^verbatim>\<open>fetch\<close> settled with; lines 136 to 140.\<close>

definition handleSend_fetched :: "window \<Rightarrow> nat \<Rightarrow> jsstring \<Rightarrow> fetch_result \<Rightarrow> state \<Rightarrow> state" where
  "handleSend_fetched w i loadingId r s =
     (case r of
        Rejected \<Rightarrow> finish i (handleSend_finally (handleSend_catch w loadingId NetworkFailure s))
      | Response ok b \<Rightarrow>
          if \<not> ok then finish i (handleSend_finally (handleSend_catch w loadingId RequestFailed s))
          else s\<lparr>pending := (pending s)[i := ChatJson loadingId b]\<rparr>)"

text \<open>
  Resuming at line 140 with what \<^verbatim>\<open>response.json()\<close> settled with; lines 140 to 155. The
  typing row is looked up and removed at line 143; reading \<^verbatim>\<open>data.response\<close> or the call of
  \<^verbatim>\<open>addMessage\<close> at line 146 may then throw, and the \<^verbatim>\<open>catch\<close> block looks the id up again.
\<close>

definition handleSend_parsed :: "window \<Rightarrow> nat \<Rightarrow> jsstring \<Rightarrow> json option \<Rightarrow> state \<Rightarrow> state" where
  "handleSend_parsed w i loadingId b s =
     (case b of
        None \<Rightarrow> finish i (handleSend_finally (handleSend_catch w loadingId BodyUnreadable s))
      | Some data \<Rightarrow>
          let s1 = removeLoadingIndicator loadingId s in
          (case get_prop data (lit ''response'') of
             Inl err \<Rightarrow> finish i (handleSend_finally (handleSend_catch w loadingId err s1))
           | Inr v \<Rightarrow>
               (case addMessage w Assistant v s1 of
                  Inl err \<Rightarrow> finish i (handleSend_finally (handleSend_catch w loadingId err s1))
                | Inr s2 \<Rightarrow> finish i (handleSend_finally s2))))"

subsection \<open>Sessions\<close>

definition session_label :: "caller \<Rightarrow> log_label" where
  "session_label c = (case c of InitializeSession \<Rightarrow> InitFailed | HandleNewChat \<Rightarrow> NewChatFailed)"

text \<open>Lines 26 to 32: \<^verbatim>\<open>initializeSession\<close> up to the \<^verbatim>\<open>await fetch\<close>.\<close>

definition initializeSession :: "state \<Rightarrow> state" where
  "initializeSession s =
     s\<lparr>requests := requests s @ [new_session_request],
       pending := pending s @ [SessionFetch InitializeSession]\<rparr>"

text \<open>Lines 219 to 240: \<^verbatim>\<open>handleNewChat\<close> up to the \<^verbatim>\<open>await fetch\<close>.\<close>

definition handleNewChat :: "state \<Rightarrow> state" where
  "handleNewChat s =
     (let s1 = s\<lparr>chatContainer := [WelcomeMessage]\<rparr>
      in s1\<lparr>requests := requests s1 @ [new_session_request],
             pending := pending s1 @ [SessionFetch HandleNewChat]\<rparr>)"

text \<open>
  Lines 27 to 37 and 235 to 245 after the \<^verbatim>\<open>fetch\<close>: the two functions have the same
  text but for the label logged, so the caller is a parameter. Neither looks at
  \<^verbatim>\<open>response.ok\<close>.
\<close>

definition session_catch :: "caller \<Rightarrow> js_error \<Rightarrow> state \<Rightarrow> state" where
  "session_catch c err s = s\<lparr>console := console s @ [(session_label c, err)]\<rparr>"

definition session_fetched :: "nat \<Rightarrow> caller \<Rightarrow> fetch_result \<Rightarrow> state \<Rightarrow> state" where
  "session_fetched i c r s =
     (case r of
        Rejected \<Rightarrow> finish i (session_catch c NetworkFailure s)
      | Response ok b \<Rightarrow> s\<lparr>pending := (pending s)[i := SessionJson c b]\<rparr>)"

definition session_parsed :: "nat \<Rightarrow> caller \<Rightarrow> json option \<Rightarrow> state \<Rightarrow> state" where
  "session_parsed i c b s =
     (case b of
        None \<Rightarrow> finish i (session_catch c BodyUnreadable s)
      | Some data \<Rightarrow>
          (case get_prop data (lit ''session_id'') of
             Inl err \<Rightarrow> finish i (session_catch c err s)
           | Inr v \<Rightarrow> finish i (s\<lparr>currentSessionId := v\<rparr>)))"

subsection \<open>Events\<close>

text \<open>
  What the browser delivers: the page's load event, the user's actions on the textarea and
  the two buttons, and the settling of the promise a pending task awaits (the task is named
  by its position in the pending list). A click is delivered whether or not the button is
  disabled, so the model has every run of the page and more.
\<close>

datatype event =
    DOMContentLoaded
  | Input jsstring               \<comment> \<open>the textarea now holds this text\<close>
  | CompositionStart
  | CompositionEnd
  | KeyDown jsstring bool        \<comment> \<open>\<^verbatim>\<open>e.key\<close>, \<^verbatim>\<open>e.shiftKey\<close>\<close>
  | ClickSend
  | ClickNewChat
  | FetchSettled nat fetch_result
  | JsonSettled nat

text \<open>Lines 18 to 22; \<^verbatim>\<open>setupEventListeners\<close> (lines 41 to 69) installs the handlers below.\<close>

definition onDOMContentLoaded :: "window \<Rightarrow> state \<Rightarrow> state" where
  "onDOMContentLoaded w s = adjustTextareaHeight w ((initializeSession s)\<lparr>listening := True\<rparr>)"

text \<open>Lines 58 to 65.\<close>

definition onKeyDown :: "window \<Rightarrow> jsstring \<Rightarrow> bool \<Rightarrow> state \<Rightarrow> state" where
  "onKeyDown w k shift s =
     (if k = lit ''Enter'' \<and> \<not> shift \<and> \<not> isComposing s
      then (if \<not> isWaitingResponse s \<and> trim (inputValue s) \<noteq> [] then handleSend w s else s)
      else s)"

definition settle_fetch :: "window \<Rightarrow> nat \<Rightarrow> fetch_result \<Rightarrow> state \<Rightarrow> state" where
  "settle_fetch w i r s =
     (if i < length (pending s) then
        (case pending s ! i of
           ChatFetch loadingId \<Rightarrow> handleSend_fetched w i loadingId r s
         | SessionFetch c \<Rightarrow> session_fetched i c r s
         | _ \<Rightarrow> s)
      else s)"

definition settle_json :: "window \<Rightarrow> nat \<Rightarrow> state \<Rightarrow> state" where
  "settle_json w i s =
     (if i < length (pending s) then
        (case pending s ! i of
           ChatJson loadingId b \<Rightarrow> handleSend_parsed w i loadingId b s
         | SessionJson c b \<Rightarrow> session_parsed i c b s
         | _ \<Rightarrow> s)
      else s)"

fun step :: "window \<Rightarrow> state \<Rightarrow> event \<Rightarrow> state" where
  "step w s DOMContentLoaded = (if listening s then s else onDOMContentLoaded w s)"
| "step w s (Input txt) =
     (let s1 = s\<lparr>inputValue := txt\<rparr>
      in if listening s then updateSendButton (adjustTextareaHeight w s1) else s1)"
| "step w s CompositionStart = (if listening s then s\<lparr>isComposing := True\<rparr> else s)"
| "step w s CompositionEnd =
     (if listening s then updateSendButton (s\<lparr>isComposing := False\<rparr>) else s)"
| "step w s (KeyDown k shift) = (if listening s then onKeyDown w k shift s else s)"
| "step w s ClickSend = (if listening s then handleSend w s else s)"
| "step w s ClickNewChat = (if listening s then handleNewChat s else s)"
| "step w s (FetchSettled i r) = settle_fetch w i r s"
| "step w s (JsonSettled i) = settle_json w i s"

definition run :: "window \<Rightarrow> state \<Rightarrow> event list \<Rightarrow> state" where
  "run w s evs = foldl (step w) s evs"

subsection \<open>Notions the properties are stated with\<close>

text \<open>The number of \<^verbatim>\<open>/api/chat\<close> exchanges that have been started and have not ended.\<close>

fun is_chat_task :: "task \<Rightarrow> bool" where
  "is_chat_task (ChatFetch i) = True"
| "is_chat_task (ChatJson i b) = True"
| "is_chat_task _ = False"

definition sends_in_flight :: "state \<Rightarrow> nat" where
  "sends_in_flight s = length (filter is_chat_task (pending s))"








text \<open>
  What holds of the busy flag in every state the page can reach: a chat exchange is in
  flight exactly when the flag is set.
\<close>

definition flight_inv :: "state \<Rightarrow> bool" where
  "flight_inv s \<longleftrightarrow> sends_in_flight s = (if isWaitingResponse s then 1 else 0)"

text \<open>
  What an assistant row shows for a string, which \<^verbatim>\<open>marked.parse\<close> accepts; what line 146
  computes for a body, the reply rendered or the error thrown on the way; and what the
  assistant row at the end of the exchange shows for that body: the reply, or the apology
  of the \<^verbatim>\<open>catch\<close> block.
\<close>

definition shown_string :: "window \<Rightarrow> jsstring \<Rightarrow> content" where
  "shown_string w t =
     (case (marked w, DOMPurify w) of
        (Some parse, Some sanitize) \<Rightarrow> markup w parse sanitize t
      | _ \<Rightarrow> TextContent (Some (JStr t)))"

definition reply_of :: "window \<Rightarrow> json \<Rightarrow> js_error + content" where
  "reply_of w d =
     (case get_prop d (lit ''response'') of
        Inl err \<Rightarrow> Inl err
      | Inr v \<Rightarrow> render w Assistant v)"


subsection \<open>A concrete page\<close>

text \<open>
  Both libraries loaded (toy stand-ins: the Markdown parser returns a string as it is, the
  sanitizer deletes every \<^verbatim>\<open><\<close>, and no markup builds an element), and the page as served:
  the welcome block, an empty textarea, the button disabled.
\<close>

definition demo_window :: window where
  "demo_window =
     \<lparr> marked = Some (\<lambda>t. t),
       DOMPurify = Some (filter (\<lambda>c. c \<noteq> 0x3C)),
       dom = (\<lambda>h. []),
       scrollHeight = (\<lambda>t. 24 + 24 * length (filter (\<lambda>c. c = 0x0A) t)) \<rparr>"

definition demo_page :: state where
  "demo_page = init_state [WelcomeMessage] [] 24 True"

text \<open>The page after it has loaded and the user has typed \<^verbatim>\<open>hi\<close>, and after the send.\<close>

definition demo_typed :: state where
  "demo_typed = run demo_window demo_page [DOMContentLoaded, Input (lit ''hi'')]"

definition demo_sent :: state where
  "demo_sent = run demo_window demo_page [DOMContentLoaded, Input (lit ''hi''), ClickSend]"


text \<open>
  A page whose sanitizer keeps the \<^verbatim>\<open>id\<close> attribute, a reply that carries the id of the
  typing row, and a run: the first exchange is answered with that reply, the second send is
  rejected.
\<close>

definition clash_window :: window where
  "clash_window =
     \<lparr> marked = Some (\<lambda>t. t),
       DOMPurify = Some (\<lambda>h. h),
       dom = (\<lambda>h. if h = lit ''<p id=loading-indicator>''
                   then [Elem (lit ''p'') (Some (lit ''loading-indicator'')) [] []] else []),
       scrollHeight = (\<lambda>t. 24) \<rparr>"

definition clash_reply :: fetch_result where
  "clash_reply =
     Response True (Some (JObj [(lit ''response'', JStr (lit ''<p id=loading-indicator>''))]))"

definition clash_first :: "event list" where
  "clash_first =
     [DOMContentLoaded, Input (lit ''hi''), ClickSend, FetchSettled 1 clash_reply, JsonSettled 1]"

definition clash_second :: "event list" where
  "clash_second = [Input (lit ''again''), ClickSend, FetchSettled 1 Rejected]"

subsection \<open>Further notions and runs\<close>

text \<open>
  The welcome block is nowhere in the container but, at most, in the first place: where the
  page as served and \<^verbatim>\<open>handleNewChat\<close> put it.
\<close>

definition welcome_first :: "node list \<Rightarrow> bool" where
  "welcome_first v \<longleftrightarrow> WelcomeMessage \<notin> set (tl v)"

text \<open>
  One acquisition of a session token, from a state in which no task is parked after the
  new one: the call of \<^verbatim>\<open>initializeSession\<close> or \<^verbatim>\<open>handleNewChat\<close>, the settling of its
  \<^verbatim>\<open>fetch\<close> with \<open>r\<close>, and the settling of the body when the task is still pending.
\<close>

definition acquire :: "window \<Rightarrow> caller \<Rightarrow> fetch_result \<Rightarrow> state \<Rightarrow> state" where
  "acquire w c r s =
     (let n = length (pending s)
      in settle_json w n (settle_fetch w n r
           (case c of InitializeSession \<Rightarrow> initializeSession s | HandleNewChat \<Rightarrow> handleNewChat s)))"

text \<open>
  The first acquisition is answered with an error status and a JSON error body.
\<close>

definition demo_error_reply :: "event list" where
  "demo_error_reply =
     [DOMContentLoaded,
      FetchSettled 0 (Response False (Some (JObj [(lit ''error'', JStr (lit ''boom''))]))),
      JsonSettled 0]"

text \<open>
  The elements under a row are what its markup built, less what the lookups removed since.
\<close>

inductive pruned :: "elem list \<Rightarrow> elem list \<Rightarrow> bool" where
  pruned_refl: "pruned es es"
| pruned_step: "pruned es es' \<Longrightarrow> remove_elem q es' = Some es'' \<Longrightarrow> pruned es es''"

text \<open>
  Markup in a message row is safe when it is what the sanitizer returned for the parsed
  Markdown of some content, and the elements under the row are those this markup built,
  less the removed ones; text is inert.
\<close>

fun content_safe :: "window \<Rightarrow> content \<Rightarrow> bool" where
  "content_safe w (TextContent c) = True"
| "content_safe w (InnerHTML h es) =
     (case (marked w, DOMPurify w) of
        (Some parse, Some sanitize) \<Rightarrow> h \<in> range (\<lambda>t. sanitize (parse t)) \<and> pruned (dom w h) es
      | _ \<Rightarrow> False)"

definition view_safe :: "window \<Rightarrow> node list \<Rightarrow> bool" where
  "view_safe w v \<longleftrightarrow> (\<forall>r c. Message r c \<in> set v \<longrightarrow> content_safe w c)"

text \<open>A reply that carries a script element.\<close>

definition script_reply :: json where
  "script_reply = JObj [(lit ''response'', JStr (lit ''<script>alert(1)</script>''))]"

text \<open>The \<^verbatim>\<open>session_id\<close> property of the object a request carries (\<open>None\<close>: it has none).\<close>

definition sent_session_id :: "request \<Rightarrow> jsval" where
  "sent_session_id q =
     (case body q of
        None \<Rightarrow> None
      | Some b \<Rightarrow> (case get_prop b (lit ''session_id'') of Inl err \<Rightarrow> None | Inr v \<Rightarrow> v))"

text \<open>
  The one event at which \<^verbatim>\<open>currentSessionId\<close> is assigned: the body of a session response
  settles as JSON other than \<^verbatim>\<open>null\<close> (lines 33 to 34 and 241 to 242). A run stores no
  token when none of its events is of that kind.
\<close>

fun stores_token :: "state \<Rightarrow> event \<Rightarrow> bool" where
  "stores_token s (JsonSettled i) =
     (i < length (pending s) \<and>
      (case pending s ! i of
         SessionJson c (Some d) \<Rightarrow> d \<noteq> JNull
       | _ \<Rightarrow> False))"
| "stores_token s _ = False"

fun no_token_stored :: "window \<Rightarrow> state \<Rightarrow> event list \<Rightarrow> bool" where
  "no_token_stored w s [] = True"
| "no_token_stored w s (e # es) = (\<not> stores_token s e \<and> no_token_stored w (step w s e) es)"

text \<open>The identifier is still the initial one, and so was it in every chat request sent.\<close>

definition default_inv :: "state \<Rightarrow> bool" where
  "default_inv s \<longleftrightarrow>
     currentSessionId s = Some (JStr (lit ''default'')) \<and>
     list_all (\<lambda>q. url q = lit ''/api/chat'' \<longrightarrow> sent_session_id q = Some (JStr (lit ''default'')))
       (requests s)"

text \<open>
  Three more runs of the concrete page: the first acquisition is rejected and the user sends;
  it is answered with an empty object and the user sends; it is answered with a number too
  large for a double, which \<^verbatim>\<open>response.json()\<close> reads as \<^verbatim>\<open>Infinity\<close>, and the user sends.
\<close>

definition demo_failed_start :: "event list" where
  "demo_failed_start = [DOMContentLoaded, FetchSettled 0 Rejected, Input (lit ''hi''), ClickSend]"

definition demo_empty_reply :: "event list" where
  "demo_empty_reply =
     [DOMContentLoaded, FetchSettled 0 (Response True (Some (JObj []))), JsonSettled 0,
      Input (lit ''hi''), ClickSend]"

definition demo_huge_reply :: "event list" where
  "demo_huge_reply =
     [DOMContentLoaded,
      FetchSettled 0 (Response True (Some (JObj [(lit ''session_id'', JNum PlusInfinity)]))),
      JsonSettled 0, Input (lit ''hi''), ClickSend]"

section \<open>Properties\<close>

subsection \<open>Basic facts\<close>

lemma trim_eq_Nil: "trim s = [] \<longleftrightarrow> (\<forall>c\<in>set s. is_ws c)"
proof
  assume "trim s = []"
  then have "dropWhile is_ws (rev (dropWhile is_ws s)) = []" by (simp add: trim_def)
  then have a: "\<forall>c\<in>set (dropWhile is_ws s). is_ws c" by (simp add: dropWhile_eq_Nil_conv)
  have "dropWhile is_ws s = []"
  proof (cases "dropWhile is_ws s")
    case Nil then show ?thesis .
  next
    case (Cons x xs)
    then have "\<not> is_ws x" using hd_dropWhile[of is_ws s] by simp
    with a Cons show ?thesis by simp
  qed
  then show "\<forall>c\<in>set s. is_ws c" by (simp add: dropWhile_eq_Nil_conv)
next
  assume "\<forall>c\<in>set s. is_ws c"
  then show "trim s = []" by (auto simp: trim_def dest: set_dropWhileD)
qed


lemma is_loading_iff: "(node_id n = Some (lit ''loading-indicator'')) = (n = LoadingIndicator)"
  by (cases n) simp_all


lemma node_matches_loading:
  "node_matches (HasId (lit ''loading-indicator'')) n = (n = LoadingIndicator)"
  by (simp add: is_loading_iff)

lemma render_User: "render w User c = Inr (TextContent c)"
  by (simp add: render_def)

lemma render_string: "render w Assistant (Some (JStr t)) = Inr (shown_string w t)"
  by (simp add: render_def shown_string_def split: option.splits)

lemma addMessage_User:
  "addMessage w User c s = Inr (s\<lparr>chatContainer := chatContainer s @ [Message User (TextContent c)]\<rparr>)"
  by (simp add: addMessage_def render_User)

lemma addMessage_string:
  "addMessage w Assistant (Some (JStr t)) s =
     Inr (s\<lparr>chatContainer := chatContainer s @ [Message Assistant (shown_string w t)]\<rparr>)"
  by (simp add: addMessage_def render_string)

lemma handleSend_guard: "trim (inputValue s) = [] \<or> isWaitingResponse s \<Longrightarrow> handleSend w s = s"
  by (auto simp: handleSend_def Let_def)

lemma handleSend_fires:
  assumes "trim (inputValue s) \<noteq> []" and "\<not> isWaitingResponse s"
  shows "handleSend w s =
    s\<lparr>isWaitingResponse := True, inputValue := [],
      inputHeight := min (scrollHeight w []) 200, sendDisabled := True,
      chatContainer := remove_match WelcomeClass (chatContainer s) @
        [Message User (TextContent (Some (JStr (trim (inputValue s))))), LoadingIndicator],
      pending := pending s @ [ChatFetch (lit ''loading-indicator'')],
      requests := requests s @ [chat_request (trim (inputValue s)) (currentSessionId s)]\<rparr>"
  using assms
  by (simp add: handleSend_def Let_def updateSendButton_def adjustTextareaHeight_def
      removeWelcome_def addMessage_User addLoadingIndicator_def)

text \<open>The \<^verbatim>\<open>catch\<close> block and the end of the \<^verbatim>\<open>try\<close> block, in closed form.\<close>

lemma handleSend_catch_eq:
  "handleSend_catch w lid err s =
     s\<lparr>console := console s @ [(SendFailed, err)],
       chatContainer := remove_match (HasId lid) (chatContainer s) @
         [Message Assistant (shown_string w apology)]\<rparr>"
  by (simp add: handleSend_catch_def Let_def removeLoadingIndicator_def addMessage_string)

lemma handleSend_parsed_Some:
  "handleSend_parsed w i lid (Some d) s =
     finish i (handleSend_finally
       (case reply_of w d of
          Inl err \<Rightarrow> handleSend_catch w lid err (removeLoadingIndicator lid s)
        | Inr shown \<Rightarrow>
            s\<lparr>chatContainer := remove_match (HasId lid) (chatContainer s) @
                [Message Assistant shown]\<rparr>))"
  by (simp add: handleSend_parsed_def Let_def reply_of_def addMessage_def removeLoadingIndicator_def
      split: sum.splits)

lemma view_finish: "chatContainer (finish i s) = chatContainer s"
  by (simp add: finish_def)

lemma view_finally: "chatContainer (handleSend_finally s) = chatContainer s"
  by (simp add: handleSend_finally_def updateSendButton_def Let_def)

lemma view_remove:
  "chatContainer (removeLoadingIndicator lid s) = remove_match (HasId lid) (chatContainer s)"
  by (simp add: removeLoadingIndicator_def)

lemma view_catch:
  "chatContainer (handleSend_catch w lid err s) =
     remove_match (HasId lid) (chatContainer s) @ [Message Assistant (shown_string w apology)]"
  by (simp add: handleSend_catch_eq)

lemmas view_simps = view_finish view_finally view_remove view_catch

lemma pending_end:
  "pending (finish i (handleSend_finally s)) = drop_nth i (pending s)"
  "isWaitingResponse (finish i (handleSend_finally s)) = False"
  by (simp_all add: finish_def handleSend_finally_def updateSendButton_def Let_def)

lemma frame_catch:
  "pending (handleSend_catch w lid err s) = pending s"
  "isWaitingResponse (handleSend_catch w lid err s) = isWaitingResponse s"
  "currentSessionId (handleSend_catch w lid err s) = currentSessionId s"
  "requests (handleSend_catch w lid err s) = requests s"
  by (simp_all add: handleSend_catch_eq)

lemma frame_remove:
  "pending (removeLoadingIndicator lid s) = pending s"
  "isWaitingResponse (removeLoadingIndicator lid s) = isWaitingResponse s"
  "currentSessionId (removeLoadingIndicator lid s) = currentSessionId s"
  "requests (removeLoadingIndicator lid s) = requests s"
  by (simp_all add: removeLoadingIndicator_def)

lemma frame_end:
  "currentSessionId (finish i (handleSend_finally s)) = currentSessionId s"
  "requests (finish i (handleSend_finally s)) = requests s"
  by (simp_all add: finish_def handleSend_finally_def updateSendButton_def Let_def)

lemmas frame_simps = frame_catch frame_remove frame_end

subsection \<open>Lists of pending tasks\<close>

lemma filter_drop_nth:
  assumes "i < length xs"
  shows "length (filter P (drop_nth i xs)) = length (filter P xs) - (if P (xs ! i) then 1 else 0)"
proof -
  have "xs = take i xs @ xs ! i # drop (Suc i) xs"
    using assms by (rule id_take_nth_drop)
  then have "length (filter P xs) = length (filter P (take i xs @ xs ! i # drop (Suc i) xs))"
    by simp
  then show ?thesis by (simp add: drop_nth_def)
qed

lemma filter_update_same:
  assumes "i < length xs" and "P y = P (xs ! i)"
  shows "length (filter P (xs[i := y])) = length (filter P xs)"
proof -
  have "xs[i := y] = take i xs @ y # drop (Suc i) xs"
    using assms(1) by (rule upd_conv_take_nth_drop)
  moreover have "xs = take i xs @ xs ! i # drop (Suc i) xs"
    using assms(1) by (rule id_take_nth_drop)
  then have "length (filter P xs) = length (filter P (take i xs @ xs ! i # drop (Suc i) xs))"
    by simp
  ultimately show ?thesis using assms(2) by simp
qed

lemma drop_nth_last: "drop_nth (length xs) (xs @ [x]) = xs"
  by (simp add: drop_nth_def)




subsection \<open>Blank input\<close>

text \<open>
  C3. When the textarea holds nothing but white space (or nothing at all), a send does
  nothing: \<^verbatim>\<open>handleSend\<close> returns the state it was given, so no request is issued, no row
  is appended, and the textarea, the busy flag and the session id are as before. The same
  holds for the click on the send button and for any key press.
\<close>

theorem send_blank_is_noop:
  assumes "\<forall>c\<in>set (inputValue s). is_ws c"
  shows "handleSend w s = s \<and> step w s ClickSend = s \<and> step w s (KeyDown k shift) = s"
proof -
  have t: "trim (inputValue s) = []" using assms by (simp add: trim_eq_Nil)
  then have "handleSend w s = s" by (simp add: handleSend_guard)
  with t show ?thesis by (simp add: onKeyDown_def)
qed

theorem send_blank_is_noop_witness:
  "list_all is_ws (inputValue (demo_page\<lparr>inputValue := [0x20, 0x3000, 0x0A]\<rparr>)) \<and>
   handleSend demo_window (demo_page\<lparr>inputValue := [0x20, 0x3000, 0x0A]\<rparr>) =
     demo_page\<lparr>inputValue := [0x20, 0x3000, 0x0A]\<rparr>"
proof -
  have h: "\<forall>c\<in>set (inputValue (demo_page\<lparr>inputValue := [0x20, 0x3000, 0x0A]\<rparr>)). is_ws c"
    by (simp add: is_ws_def)
  from send_blank_is_noop [OF h, of demo_window] h show ?thesis
    by (simp add: list_all_iff)
qed

subsection \<open>At most one exchange in flight\<close>

lemma chat_task_waiting:
  assumes "flight_inv s" and "i < length (pending s)" and "is_chat_task (pending s ! i)"
  shows "isWaitingResponse s" and "sends_in_flight s = 1"
proof -
  have "pending s ! i \<in> set (filter is_chat_task (pending s))"
    using assms(2,3) by simp
  then have "0 < sends_in_flight s"
    unfolding sends_in_flight_def by (metis length_pos_if_in_set)
  with assms(1) show "isWaitingResponse s" and "sends_in_flight s = 1"
    by (auto simp: flight_inv_def split: if_splits)
qed

lemma flight_inv_chat_end:
  assumes "flight_inv s" and "i < length (pending s)" and "is_chat_task (pending s ! i)"
    and "pending t = pending s"
  shows "flight_inv (finish i (handleSend_finally t))"
  using chat_task_waiting [OF assms(1,2,3)] assms(2,3,4)
  by (simp add: flight_inv_def pending_end sends_in_flight_def filter_drop_nth)

lemma flight_inv_session_end:
  assumes "flight_inv s" and "i < length (pending s)" and "\<not> is_chat_task (pending s ! i)"
    and "pending t = pending s" and "isWaitingResponse t = isWaitingResponse s"
  shows "flight_inv (finish i t)"
  using assms by (simp add: flight_inv_def finish_def sends_in_flight_def filter_drop_nth)

lemma flight_inv_parked:
  assumes "flight_inv s" and "i < length (pending s)" and "is_chat_task y = is_chat_task (pending s ! i)"
  shows "flight_inv (s\<lparr>pending := (pending s)[i := y]\<rparr>)"
  using assms by (simp add: flight_inv_def sends_in_flight_def filter_update_same)

lemma flight_inv_handleSend: "flight_inv s \<Longrightarrow> flight_inv (handleSend w s)"
  by (cases "trim (inputValue s) = [] \<or> isWaitingResponse s")
    (simp_all add: handleSend_guard handleSend_fires flight_inv_def sends_in_flight_def)

lemma flight_inv_settle_fetch: "flight_inv s \<Longrightarrow> flight_inv (settle_fetch w i r s)"
proof (cases "i < length (pending s)")
  case False
  assume "flight_inv s"
  with False show ?thesis by (simp add: settle_fetch_def)
next
  case inb: True
  assume inv: "flight_inv s"
  show ?thesis
  proof (cases "pending s ! i")
    case (ChatFetch lid)
    have "flight_inv (finish i (handleSend_finally (handleSend_catch w lid err s)))" for err
      by (rule flight_inv_chat_end [OF inv inb]) (simp_all add: ChatFetch frame_simps)
    moreover have "flight_inv (s\<lparr>pending := (pending s)[i := ChatJson lid b]\<rparr>)" for b
      by (rule flight_inv_parked [OF inv inb]) (simp add: ChatFetch)
    ultimately show ?thesis
      using inb ChatFetch
      by (simp add: settle_fetch_def handleSend_fetched_def split: fetch_result.splits)
  next
    case (SessionFetch c)
    have "flight_inv (finish i (session_catch c err s))" for err
      by (rule flight_inv_session_end [OF inv inb]) (simp_all add: SessionFetch session_catch_def)
    moreover have "flight_inv (s\<lparr>pending := (pending s)[i := SessionJson c b]\<rparr>)" for b
      by (rule flight_inv_parked [OF inv inb]) (simp add: SessionFetch)
    ultimately show ?thesis
      using inb SessionFetch
      by (simp add: settle_fetch_def session_fetched_def split: fetch_result.splits)
  qed (use inv inb in \<open>simp_all add: settle_fetch_def\<close>)
qed

lemma flight_inv_settle_json: "flight_inv s \<Longrightarrow> flight_inv (settle_json w i s)"
proof (cases "i < length (pending s)")
  case False
  assume "flight_inv s"
  with False show ?thesis by (simp add: settle_json_def)
next
  case inb: True
  assume inv: "flight_inv s"
  show ?thesis
  proof (cases "pending s ! i")
    case (ChatJson lid b)
    have none: "flight_inv (finish i (handleSend_finally (handleSend_catch w lid err s)))" for err
      by (rule flight_inv_chat_end [OF inv inb]) (simp_all add: ChatJson frame_simps)
    have some: "flight_inv (handleSend_parsed w i lid (Some d) s)" for d
      unfolding handleSend_parsed_Some
      by (rule flight_inv_chat_end [OF inv inb])
        (simp_all add: ChatJson frame_simps split: sum.splits)
    show ?thesis
      using inb ChatJson none some
      by (cases b) (simp_all add: settle_json_def handleSend_parsed_def)
  next
    case (SessionJson c b)
    have "flight_inv (finish i (session_catch c err s))" for err
      by (rule flight_inv_session_end [OF inv inb]) (simp_all add: SessionJson session_catch_def)
    moreover have "flight_inv (finish i (s\<lparr>currentSessionId := v\<rparr>))" for v
      by (rule flight_inv_session_end [OF inv inb]) (simp_all add: SessionJson)
    ultimately show ?thesis
      using inb SessionJson
      by (simp add: settle_json_def session_parsed_def split: option.splits sum.splits)
  qed (use inv inb in \<open>simp_all add: settle_json_def\<close>)
qed

lemma flight_inv_step: "flight_inv s \<Longrightarrow> flight_inv (step w s e)"
proof (cases e)
  case (KeyDown k shift)
  assume "flight_inv s"
  with KeyDown show ?thesis by (simp add: onKeyDown_def flight_inv_handleSend)
next
  case ClickSend
  assume "flight_inv s"
  with ClickSend show ?thesis by (simp add: flight_inv_handleSend)
next
  case (FetchSettled i r)
  assume "flight_inv s"
  with FetchSettled show ?thesis by (simp add: flight_inv_settle_fetch)
next
  case (JsonSettled i)
  assume "flight_inv s"
  with JsonSettled show ?thesis by (simp add: flight_inv_settle_json)
qed (auto simp: flight_inv_def sends_in_flight_def onDOMContentLoaded_def
      initializeSession_def adjustTextareaHeight_def updateSendButton_def handleNewChat_def Let_def
      split: if_splits)

lemma flight_inv_run: "flight_inv s \<Longrightarrow> flight_inv (run w s evs)"
  unfolding run_def by (induction evs arbitrary: s) (simp_all add: flight_inv_step)

lemma flight_inv_init: "flight_inv (init_state v0 tx h dis)"
  by (simp add: flight_inv_def init_state_def sends_in_flight_def)


subsection \<open>The concrete page, evaluated\<close>

lemma demo_typed_eval:
  "demo_typed = \<lparr> currentSessionId = Some (JStr (lit ''default'')),
       isWaitingResponse = False, isComposing = False, inputValue = lit ''hi'',
       inputHeight = 24, sendDisabled = False, chatContainer = [WelcomeMessage],
       listening = True, pending = [SessionFetch InitializeSession],
       requests = [new_session_request], console = [] \<rparr>"
  by (simp add: demo_typed_def demo_page_def demo_window_def run_def init_state_def
      onDOMContentLoaded_def initializeSession_def adjustTextareaHeight_def
      updateSendButton_def Let_def trim_def is_ws_def lit_def)

lemma demo_sent_eval:
  "demo_sent = \<lparr> currentSessionId = Some (JStr (lit ''default'')),
       isWaitingResponse = True, isComposing = False, inputValue = [],
       inputHeight = 24, sendDisabled = True,
       chatContainer = [Message User (TextContent (Some (JStr (lit ''hi'')))), LoadingIndicator],
       listening = True,
       pending = [SessionFetch InitializeSession, ChatFetch (lit ''loading-indicator'')],
       requests = [new_session_request, chat_request (lit ''hi'') (Some (JStr (lit ''default'')))],
       console = [] \<rparr>"
proof -
  have "demo_sent = step demo_window demo_typed ClickSend"
    by (simp add: demo_sent_def demo_typed_def run_def)
  also have "\<dots> = handleSend demo_window demo_typed" by (simp add: demo_typed_eval)
  finally show ?thesis
    by (simp add: demo_typed_eval handleSend_fires trim_def is_ws_def lit_def demo_window_def
        remove_match_def)
qed


lemma demo_typed_ready:
  "trim (inputValue demo_typed) = lit ''hi''" "\<not> isWaitingResponse demo_typed"
  "chatContainer demo_typed = [WelcomeMessage]"
  by (simp_all add: demo_typed_eval trim_def is_ws_def lit_def)

lemma lit_nonempty: "lit (c # cs) \<noteq> []"
  by (simp add: lit_def)

subsection \<open>A send while one is pending\<close>

text \<open>
  C4. While the busy flag is set, \<^verbatim>\<open>handleSend\<close> returns the state it was given, whether
  called from the button or from the Enter key: no request is issued and the container is
  as before. Hence, in every state the page reaches from its initial state, by any
  sequence of events, at most one \<^verbatim>\<open>/api/chat\<close> exchange is in flight.
\<close>

theorem send_while_pending_is_noop:
  "(isWaitingResponse s \<longrightarrow>
      handleSend w s = s \<and> step w s ClickSend = s \<and> step w s (KeyDown k shift) = s) \<and>
   sends_in_flight (run w (init_state v0 tx h dis) evs) \<le> 1"
proof -
  have "flight_inv (run w (init_state v0 tx h dis) evs)"
    by (simp add: flight_inv_run flight_inv_init)
  then have "sends_in_flight (run w (init_state v0 tx h dis) evs) \<le> 1"
    by (simp add: flight_inv_def)
  then show ?thesis by (simp add: handleSend_guard onKeyDown_def)
qed

theorem send_while_pending_is_noop_witness:
  "isWaitingResponse demo_sent \<and> handleSend demo_window demo_sent = demo_sent \<and>
   step demo_window demo_sent ClickSend = demo_sent \<and>
   sends_in_flight demo_sent = 1"
proof -
  have h: "isWaitingResponse demo_sent" by (simp add: demo_sent_eval)
  have "sends_in_flight demo_sent = 1" by (simp add: demo_sent_eval sends_in_flight_def)
  with send_while_pending_is_noop [of demo_sent demo_window "lit ''Enter''" False] h
  show ?thesis by blast
qed


lemma remove_under_Some:
  assumes "remove_under q n = Some n'"
  shows "\<exists>r h es es'. n = Message r (InnerHTML h es) \<and> remove_elem q es = Some es' \<and>
           n' = Message r (InnerHTML h es')"
proof (cases n)
  case (Message r c)
  show ?thesis
  proof (cases c)
    case (InnerHTML h es)
    with assms Message show ?thesis by (auto split: option.splits)
  next
    case (TextContent x)
    with assms Message show ?thesis by simp
  qed
qed (use assms in simp_all)










subsection \<open>An exchange among other events\<close>











subsection \<open>A successful exchange\<close>








subsection \<open>A failed exchange\<close>

lemma clash_first_eval:
  "run clash_window demo_page clash_first =
     \<lparr> currentSessionId = Some (JStr (lit ''default'')),
       isWaitingResponse = False, isComposing = False, inputValue = [],
       inputHeight = 24, sendDisabled = True,
       chatContainer =
         [Message User (TextContent (Some (JStr (lit ''hi'')))),
          Message Assistant
            (InnerHTML (lit ''<p id=loading-indicator>'')
               [Elem (lit ''p'') (Some (lit ''loading-indicator'')) [] []])],
       listening = True, pending = [SessionFetch InitializeSession],
       requests = [new_session_request, chat_request (lit ''hi'') (Some (JStr (lit ''default'')))],
       console = [] \<rparr>"
  by (simp add: clash_first_def clash_reply_def demo_page_def clash_window_def run_def
      init_state_def onDOMContentLoaded_def initializeSession_def adjustTextareaHeight_def
      updateSendButton_def Let_def trim_def is_ws_def handleSend_def removeWelcome_def
      addMessage_def render_def markup_def addLoadingIndicator_def remove_match_def
      settle_fetch_def settle_json_def handleSend_fetched_def handleSend_parsed_def
      removeLoadingIndicator_def handleSend_finally_def finish_def drop_nth_def lit_def
      chat_request_def new_session_request_def)

lemma run_append: "run w s (evs @ evs') = run w (run w s evs) evs'"
  by (simp add: run_def)

text \<open>
  C2. A failed send does not always remove the typing row. The reply to a first send holds
  an element with the id \<^verbatim>\<open>loading-indicator\<close>, which the sanitizer keeps. When a second send
  is rejected, \<^verbatim>\<open>getElementById\<close> returns that element, the first with the id in the
  document: it is removed from the earlier reply, the typing row stays in the container,
  and the apology is appended behind it. The busy flag is cleared and no exchange is left
  in flight.
\<close>

theorem failed_send_leaves_typing_row:
  "chatContainer (run clash_window demo_page (clash_first @ clash_second)) =
     [Message User (TextContent (Some (JStr (lit ''hi'')))),
      Message Assistant (InnerHTML (lit ''<p id=loading-indicator>'') []),
      Message User (TextContent (Some (JStr (lit ''again'')))),
      LoadingIndicator,
      Message Assistant (InnerHTML apology [])] \<and>
   \<not> isWaitingResponse (run clash_window demo_page (clash_first @ clash_second)) \<and>
   sends_in_flight (run clash_window demo_page (clash_first @ clash_second)) = 0"
  unfolding run_append clash_first_eval
  by (simp add: clash_second_def clash_window_def run_def
      adjustTextareaHeight_def sends_in_flight_def
      updateSendButton_def Let_def trim_def is_ws_def handleSend_def removeWelcome_def
      addMessage_def render_def markup_def addLoadingIndicator_def remove_match_def
      settle_fetch_def handleSend_fetched_def handleSend_catch_def
      removeLoadingIndicator_def handleSend_finally_def finish_def drop_nth_def lit_def apology_def)

subsection \<open>The welcome block\<close>

lemma remove_node_keeps_welcome:
  "remove_node q v = Some v' \<Longrightarrow> WelcomeMessage \<in> set v' \<Longrightarrow> WelcomeMessage \<in> set v"
proof (induction v arbitrary: v')
  case Nil
  then show ?case by simp
next
  case (Cons n ns)
  show ?case
  proof (cases "node_matches q n")
    case True
    with Cons.prems show ?thesis by simp
  next
    case nm: False
    show ?thesis
    proof (cases "remove_under q n")
      case (Some n')
      then have "n' \<noteq> WelcomeMessage" using remove_under_Some by blast
      moreover from nm Some Cons.prems(1) have "v' = n' # ns" by simp
      ultimately show ?thesis using Cons.prems(2) by simp
    next
      case None
      with nm Cons.prems obtain ns' where "remove_node q ns = Some ns'" and "v' = n # ns'"
        by (auto split: option.splits)
      with Cons.IH [of ns'] Cons.prems(2) show ?thesis by auto
    qed
  qed
qed

lemma welcome_first_remove: "welcome_first v \<Longrightarrow> welcome_first (remove_match q v)"
proof (cases v)
  case Nil
  then show ?thesis by (simp add: remove_match_def welcome_first_def)
next
  case (Cons n ns)
  assume "welcome_first v"
  with Cons have w: "WelcomeMessage \<notin> set ns" by (simp add: welcome_first_def)
  show ?thesis
  proof (cases "remove_node q v")
    case None
    with \<open>welcome_first v\<close> show ?thesis by (simp add: remove_match_def)
  next
    case (Some v')
    have "welcome_first v'"
    proof (cases "node_matches q n")
      case True
      with Some Cons have "v' = ns" by simp
      with w show ?thesis by (cases ns) (simp_all add: welcome_first_def)
    next
      case nm: False
      show ?thesis
      proof (cases "remove_under q n")
        case (Some n')
        with nm \<open>remove_node q v = Some v'\<close> Cons have "v' = n' # ns" by simp
        with w show ?thesis by (simp add: welcome_first_def)
      next
        case None
        with nm \<open>remove_node q v = Some v'\<close> Cons obtain ns'
          where r: "remove_node q ns = Some ns'" and v': "v' = n # ns'"
          by (auto split: option.splits)
        from remove_node_keeps_welcome [OF r] w have "WelcomeMessage \<notin> set ns'" by blast
        then show ?thesis by (simp add: v' welcome_first_def)
      qed
    qed
    with Some show ?thesis by (simp add: remove_match_def)
  qed
qed

lemma welcome_first_snoc:
  "welcome_first v \<Longrightarrow> n \<noteq> WelcomeMessage \<Longrightarrow> welcome_first (v @ [n])"
  by (cases v) (simp_all add: welcome_first_def)




lemma welcome_first_catch:
  "welcome_first (chatContainer s) \<Longrightarrow> welcome_first (chatContainer (handleSend_catch w lid err s))"
  by (simp add: view_catch welcome_first_snoc welcome_first_remove)








subsection \<open>A reset while a send is pending\<close>



subsection \<open>Sessions\<close>

lemma acquire_result:
  "acquire w c r s =
     (let s1 = (case c of InitializeSession \<Rightarrow> s | HandleNewChat \<Rightarrow> s\<lparr>chatContainer := [WelcomeMessage]\<rparr>);
          s2 = s1\<lparr>requests := requests s @ [new_session_request]\<rparr>;
          failed = (\<lambda>err. s2\<lparr>console := console s @ [(session_label c, err)]\<rparr>)
      in case r of
           Rejected \<Rightarrow> failed NetworkFailure
         | Response ok None \<Rightarrow> failed BodyUnreadable
         | Response ok (Some d) \<Rightarrow>
             (case get_prop d (lit ''session_id'') of
                Inl err \<Rightarrow> failed err
              | Inr v \<Rightarrow> s2\<lparr>currentSessionId := v\<rparr>))"
  by (cases c; cases r)
    (simp_all add: acquire_def Let_def initializeSession_def handleNewChat_def settle_fetch_def
      settle_json_def session_fetched_def session_parsed_def session_catch_def finish_def
      drop_nth_last split: option.splits sum.splits)

text \<open>
  C6. Whatever the container held, \<^verbatim>\<open>handleNewChat\<close> leaves exactly the welcome block in
  it, and then does what \<^verbatim>\<open>initializeSession\<close> does on the cleared page: the same request,
  a parked task that differs only in the name of its caller, and, once the response has
  settled, the same state but for the label of the logged error.
\<close>

theorem reset_clears_then_acquires:
  "chatContainer (handleNewChat s) = [WelcomeMessage] \<and>
   handleNewChat s =
     (initializeSession (s\<lparr>chatContainer := [WelcomeMessage]\<rparr>))
       \<lparr>pending := pending s @ [SessionFetch HandleNewChat]\<rparr> \<and>
   chatContainer (acquire w HandleNewChat r s) = [WelcomeMessage] \<and>
   (acquire w HandleNewChat r s)\<lparr>console := []\<rparr> =
     (acquire w InitializeSession r (s\<lparr>chatContainer := [WelcomeMessage]\<rparr>))\<lparr>console := []\<rparr> \<and>
   map snd (console (acquire w HandleNewChat r s)) =
     map snd (console (acquire w InitializeSession r (s\<lparr>chatContainer := [WelcomeMessage]\<rparr>)))"
  by (simp add: acquire_result handleNewChat_def initializeSession_def Let_def
      split: fetch_result.splits option.splits sum.splits)

subsection \<open>A session request answered with an error status\<close>

lemma acquire_stored:
  assumes "get_prop d (lit ''session_id'') = Inr v"
  shows "currentSessionId (acquire w c (Response ok (Some d)) s) = v"
    and "console (acquire w c (Response ok (Some d)) s) = console s"
  using assms by (simp_all add: acquire_result Let_def split: caller.splits)

lemma acquire_thrown:
  assumes "r = Rejected \<or> r = Response ok None \<or> r = Response ok (Some JNull)"
  shows "currentSessionId (acquire w c r s) = currentSessionId s"
    and "length (console (acquire w c r s)) = Suc (length (console s))"
    and "requests (acquire w c r s) = requests s @ [new_session_request]"
    and "chatContainer (acquire w c r s) =
           (case c of InitializeSession \<Rightarrow> chatContainer s | HandleNewChat \<Rightarrow> [WelcomeMessage])"
  using assms by (auto simp: acquire_result Let_def split: caller.splits)

text \<open>
  C5. An acquisition stores the \<^verbatim>\<open>session_id\<close> of the body it receives, and leaves the
  token alone and logs the error when the \<^verbatim>\<open>fetch\<close> rejects or the body cannot be read
  (the two lemmas above). A failure that arrives as an error status is not among them:
  neither session function looks at \<^verbatim>\<open>response.ok\<close>, as \<^verbatim>\<open>handleSend\<close> does. When the
  first acquisition is answered with an error status and the body \<^verbatim>\<open>{"error": "boom"}\<close>,
  the body is parsed, \<^verbatim>\<open>data.session_id\<close> is undefined, and it replaces the token
  \<^verbatim>\<open>"default"\<close>; nothing is logged.
\<close>

theorem session_error_status_overwrites_token:
  "currentSessionId demo_page = Some (JStr (lit ''default'')) \<and>
   currentSessionId (run demo_window demo_page demo_error_reply) = None \<and>
   console (run demo_window demo_page demo_error_reply) = [] \<and>
   pending (run demo_window demo_page demo_error_reply) = []"
  by (simp add: demo_error_reply_def demo_page_def demo_window_def run_def init_state_def
      onDOMContentLoaded_def initializeSession_def adjustTextareaHeight_def
      settle_fetch_def settle_json_def session_fetched_def session_parsed_def
      session_catch_def finish_def drop_nth_def lit_def)

subsection \<open>Assistant content\<close>

lemma content_safe_render: "render w r c = Inr shown \<Longrightarrow> content_safe w shown"
  by (auto simp: render_def markup_def pruned_refl split: role.splits option.splits json.splits)

lemma content_safe_string: "content_safe w (shown_string w t)"
  using content_safe_render [OF render_string] .

lemma view_safe_Cons:
  "view_safe w (n # ns) \<longleftrightarrow> (\<forall>r c. n = Message r c \<longrightarrow> content_safe w c) \<and> view_safe w ns"
  by (auto simp: view_safe_def)

lemma view_safe_append: "view_safe w (xs @ ys) \<longleftrightarrow> view_safe w xs \<and> view_safe w ys"
  by (auto simp: view_safe_def)

lemma view_safe_welcome: "view_safe w [WelcomeMessage]"
  by (simp add: view_safe_def)

lemma content_safe_remove_under:
  assumes "remove_under q n = Some n'" and "\<forall>r c. n = Message r c \<longrightarrow> content_safe w c"
  shows "\<forall>r c. n' = Message r c \<longrightarrow> content_safe w c"
proof -
  from assms(1) obtain r h es es' where n: "n = Message r (InnerHTML h es)"
    and e: "remove_elem q es = Some es'" and n': "n' = Message r (InnerHTML h es')"
    using remove_under_Some by blast
  from assms(2) n have "content_safe w (InnerHTML h es)" by simp
  then have "content_safe w (InnerHTML h es')"
    using e by (auto split: option.splits intro: pruned_step)
  then show ?thesis by (simp add: n')
qed

lemma view_safe_remove_node:
  "remove_node q v = Some v' \<Longrightarrow> view_safe w v \<Longrightarrow> view_safe w v'"
proof (induction v arbitrary: v')
  case Nil
  then show ?case by simp
next
  case (Cons n ns)
  from Cons.prems(2) have sn: "\<forall>r c. n = Message r c \<longrightarrow> content_safe w c"
    and sns: "view_safe w ns" by (simp_all add: view_safe_Cons)
  show ?case
  proof (cases "node_matches q n")
    case True
    with Cons.prems(1) sns show ?thesis by simp
  next
    case nm: False
    show ?thesis
    proof (cases "remove_under q n")
      case (Some n')
      with nm Cons.prems(1) have v': "v' = n' # ns" by simp
      from content_safe_remove_under [OF Some sn] sns show ?thesis
        unfolding v' view_safe_Cons by simp
    next
      case None
      with nm Cons.prems(1) obtain ns' where r: "remove_node q ns = Some ns'" and v': "v' = n # ns'"
        by (auto split: option.splits)
      from Cons.IH [OF r sns] sn show ?thesis unfolding v' view_safe_Cons by simp
    qed
  qed
qed

lemma view_safe_remove: "view_safe w v \<Longrightarrow> view_safe w (remove_match q v)"
  by (cases "remove_node q v") (simp_all add: remove_match_def view_safe_remove_node)

lemma view_safe_add:
  "view_safe w v \<Longrightarrow> content_safe w shown \<Longrightarrow> view_safe w (v @ [Message r shown])"
  by (simp add: view_safe_append view_safe_Cons view_safe_def)

lemma view_safe_handleSend:
  "view_safe w (chatContainer s) \<Longrightarrow> view_safe w (chatContainer (handleSend w s))"
proof (cases "trim (inputValue s) = [] \<or> isWaitingResponse s")
  case True
  assume "view_safe w (chatContainer s)"
  with True show ?thesis by (simp add: handleSend_guard)
next
  case False
  assume "view_safe w (chatContainer s)"
  then have "view_safe w (remove_match WelcomeClass (chatContainer s))"
    by (rule view_safe_remove)
  moreover have "view_safe w
      [Message User (TextContent (Some (JStr (trim (inputValue s))))), LoadingIndicator]"
    by (simp add: view_safe_def)
  ultimately show ?thesis using False by (simp add: handleSend_fires view_safe_append)
qed

lemma view_safe_catch:
  "view_safe w (chatContainer s) \<Longrightarrow> view_safe w (chatContainer (handleSend_catch w lid err s))"
  by (simp add: view_catch view_safe_add view_safe_remove content_safe_string)

lemma view_safe_parsed:
  assumes "view_safe w (chatContainer s)"
  shows "view_safe w (chatContainer (handleSend_parsed w i lid b s))"
proof (cases b)
  case None
  with assms show ?thesis
    by (simp add: handleSend_parsed_def view_simps view_safe_add view_safe_remove
        content_safe_string)
next
  case (Some d)
  show ?thesis
  proof (cases "reply_of w d")
    case (Inl err)
    with Some assms show ?thesis
      by (simp add: handleSend_parsed_Some view_simps view_safe_add view_safe_remove
          content_safe_string)
  next
    case (Inr shown)
    then have "content_safe w shown"
      by (auto simp: reply_of_def content_safe_render split: sum.splits)
    with Some Inr assms show ?thesis
      by (simp add: handleSend_parsed_Some view_simps view_safe_add view_safe_remove)
  qed
qed

lemma view_safe_settle_fetch:
  "view_safe w (chatContainer s) \<Longrightarrow> view_safe w (chatContainer (settle_fetch w i r s))"
  by (auto simp: settle_fetch_def handleSend_fetched_def session_fetched_def
      session_catch_def view_simps view_safe_remove view_safe_add content_safe_string
      split: task.splits fetch_result.splits)

lemma view_safe_settle_json:
  "view_safe w (chatContainer s) \<Longrightarrow> view_safe w (chatContainer (settle_json w i s))"
  by (auto simp: settle_json_def session_parsed_def view_safe_parsed
      session_catch_def view_simps
      split: task.splits option.splits sum.splits)

lemma view_safe_step:
  "view_safe w (chatContainer s) \<Longrightarrow> view_safe w (chatContainer (step w s e))"
proof (cases e)
  case (KeyDown k shift)
  assume "view_safe w (chatContainer s)"
  with KeyDown show ?thesis by (simp add: onKeyDown_def view_safe_handleSend)
next
  case ClickSend
  assume "view_safe w (chatContainer s)"
  with ClickSend show ?thesis by (simp add: view_safe_handleSend)
next
  case (FetchSettled i r)
  assume "view_safe w (chatContainer s)"
  with FetchSettled show ?thesis by (simp add: view_safe_settle_fetch)
next
  case (JsonSettled i)
  assume "view_safe w (chatContainer s)"
  with JsonSettled show ?thesis by (simp add: view_safe_settle_json)
qed (auto simp: onDOMContentLoaded_def view_safe_welcome
      initializeSession_def adjustTextareaHeight_def updateSendButton_def handleNewChat_def Let_def)

lemma view_safe_run:
  "view_safe w (chatContainer s) \<Longrightarrow> view_safe w (chatContainer (run w s evs))"
  unfolding run_def by (induction evs arbitrary: s) (simp_all add: view_safe_step)

text \<open>
  C7. The content of an assistant message is rendered either as the sanitizer's output for
  the parsed Markdown (when both libraries are loaded; \<^verbatim>\<open>marked.parse\<close> throws when the
  content is no string, and then nothing is inserted) or as inert text. Hence, when the
  container as served holds no markup other than such output, so does the container in
  every state the page reaches: no row ever holds markup that did not come out of the
  sanitizer.
\<close>

theorem assistant_content_sanitized:
  "render w Assistant c =
     (case (marked w, DOMPurify w) of
        (Some parse, Some sanitize) \<Rightarrow>
          (case c of
             Some (JStr t) \<Rightarrow> Inr (InnerHTML (sanitize (parse t)) (dom w (sanitize (parse t))))
           | _ \<Rightarrow> Inl MarkedInput)
      | _ \<Rightarrow> Inr (TextContent c)) \<and>
   (view_safe w v0 \<longrightarrow> view_safe w (chatContainer (run w (init_state v0 tx h dis) evs)))"
proof -
  have "view_safe w v0 \<Longrightarrow> view_safe w (chatContainer (run w (init_state v0 tx h dis) evs))"
    by (rule view_safe_run) (simp add: init_state_def)
  then show ?thesis by (auto simp: render_def markup_def split: option.splits json.splits)
qed

theorem assistant_content_sanitized_witness:
  "view_safe demo_window [WelcomeMessage] \<and>
   view_safe demo_window (chatContainer (run demo_window demo_page
     [DOMContentLoaded, Input (lit ''hi''), ClickSend,
      FetchSettled 1 (Response True (Some script_reply)), JsonSettled 1])) \<and>
   render demo_window Assistant (Some (JStr (lit ''<script>alert(1)</script>''))) =
     Inr (InnerHTML (lit ''script>alert(1)/script>'') [])"
proof -
  have h: "view_safe demo_window [WelcomeMessage]" by (rule view_safe_welcome)
  have r: "render demo_window Assistant (Some (JStr (lit ''<script>alert(1)</script>''))) =
     Inr (InnerHTML (lit ''script>alert(1)/script>'') [])"
    by (simp add: render_def markup_def demo_window_def lit_def)
  from assistant_content_sanitized [of demo_window _ "[WelcomeMessage]" "[]" 24 True] h r
  show ?thesis by (simp add: demo_page_def)
qed

subsection \<open>The session id in chat requests\<close>

lemma sent_session_id_chat: "sent_session_id (chat_request m sid) = map_option stringify sid"
  by (cases sid) (simp_all add: sent_session_id_def chat_request_def chat_body_def lit_def)

lemma new_session_not_chat: "url new_session_request \<noteq> lit ''/api/chat''"
  by (simp add: new_session_request_def lit_def)

lemma frame_finish:
  "currentSessionId (finish i s) = currentSessionId s" "requests (finish i s) = requests s"
  by (simp_all add: finish_def)

lemma frame_finally:
  "currentSessionId (handleSend_finally s) = currentSessionId s"
  "requests (handleSend_finally s) = requests s"
  by (simp_all add: handleSend_finally_def updateSendButton_def Let_def)

lemma default_inv_handleSend: "default_inv s \<Longrightarrow> default_inv (handleSend w s)"
  by (cases "trim (inputValue s) = [] \<or> isWaitingResponse s")
    (simp_all add: handleSend_guard handleSend_fires default_inv_def sent_session_id_chat)

lemma default_inv_parsed: "default_inv s \<Longrightarrow> default_inv (handleSend_parsed w i lid b s)"
proof (cases b)
  case None
  assume "default_inv s"
  with None show ?thesis by (simp add: handleSend_parsed_def default_inv_def frame_simps)
next
  case (Some d)
  assume "default_inv s"
  with Some show ?thesis
    by (simp add: handleSend_parsed_Some default_inv_def frame_simps split: sum.splits)
qed

lemma default_inv_settle_fetch: "default_inv s \<Longrightarrow> default_inv (settle_fetch w i r s)"
  by (auto simp: settle_fetch_def handleSend_fetched_def session_fetched_def
      session_catch_def default_inv_def frame_simps frame_finish frame_finally
      split: task.splits fetch_result.splits)

lemma default_inv_settle_json:
  "default_inv s \<Longrightarrow> \<not> stores_token s (JsonSettled i) \<Longrightarrow> default_inv (settle_json w i s)"
proof (cases "i < length (pending s)")
  case False
  assume "default_inv s"
  with False show ?thesis by (simp add: settle_json_def)
next
  case True
  assume d: "default_inv s" and n: "\<not> stores_token s (JsonSettled i)"
  show ?thesis
  proof (cases "pending s ! i")
    case (ChatJson lid b)
    with True d show ?thesis by (simp add: settle_json_def default_inv_parsed)
  next
    case (SessionJson c b)
    with True d n show ?thesis
      by (auto simp: settle_json_def session_parsed_def session_catch_def default_inv_def
          frame_finish split: option.splits sum.splits)
  qed (use True d in \<open>simp_all add: settle_json_def\<close>)
qed

lemma default_inv_step:
  "default_inv s \<Longrightarrow> \<not> stores_token s e \<Longrightarrow> default_inv (step w s e)"
proof (cases e)
  case (KeyDown k shift)
  assume "default_inv s"
  with KeyDown show ?thesis by (simp add: onKeyDown_def default_inv_handleSend)
next
  case ClickSend
  assume "default_inv s"
  with ClickSend show ?thesis by (simp add: default_inv_handleSend)
next
  case (FetchSettled i r)
  assume "default_inv s"
  with FetchSettled show ?thesis by (simp add: default_inv_settle_fetch)
next
  case (JsonSettled i)
  assume "default_inv s" and "\<not> stores_token s e"
  with JsonSettled show ?thesis by (simp add: default_inv_settle_json)
qed (auto simp: default_inv_def onDOMContentLoaded_def new_session_not_chat
      initializeSession_def adjustTextareaHeight_def updateSendButton_def handleNewChat_def Let_def)

lemma default_inv_run:
  "default_inv s \<Longrightarrow> no_token_stored w s evs \<Longrightarrow> default_inv (run w s evs)"
  unfolding run_def by (induction evs arbitrary: s) (simp_all add: default_inv_step)

lemma demo_failed_start_requests:
  "requests (run demo_window demo_page demo_failed_start) =
     [new_session_request, chat_request (lit ''hi'') (Some (JStr (lit ''default'')))]"
  by (simp add: demo_failed_start_def demo_page_def demo_window_def run_def init_state_def
      onDOMContentLoaded_def initializeSession_def adjustTextareaHeight_def
      settle_fetch_def session_fetched_def session_catch_def finish_def drop_nth_def
      updateSendButton_def handleSend_def removeWelcome_def remove_match_def addMessage_User
      addLoadingIndicator_def Let_def trim_def is_ws_def lit_def)

text \<open>
  A session reply whose \<^verbatim>\<open>session_id\<close> is \<^verbatim>\<open>1e400\<close> is stored as \<^verbatim>\<open>Infinity\<close>, and the next chat
  request carries \<^verbatim>\<open>null\<close>.
\<close>

lemma session_id_infinite:
  "currentSessionId (run demo_window demo_page demo_huge_reply) = Some (JNum PlusInfinity) \<and>
   map sent_session_id (requests (run demo_window demo_page demo_huge_reply)) = [None, Some JNull]"
  by (simp add: demo_huge_reply_def demo_page_def demo_window_def run_def init_state_def
      onDOMContentLoaded_def initializeSession_def adjustTextareaHeight_def
      settle_fetch_def settle_json_def session_fetched_def session_parsed_def
      session_catch_def finish_def drop_nth_def
      updateSendButton_def handleSend_def removeWelcome_def remove_match_def addMessage_User
      addLoadingIndicator_def Let_def trim_def is_ws_def lit_def
      chat_request_def chat_body_def sent_session_id_def new_session_request_def)

text \<open>
  C10. The session identifier is \<^verbatim>\<open>"default"\<close> in the initial state. A chat
  request carries as \<^verbatim>\<open>session_id\<close> the identifier current at the send, as \<^verbatim>\<open>JSON.stringify\<close>
  writes it (a number that is not finite as \<^verbatim>\<open>null\<close>), and has no such key when the identifier
  is undefined. In a run from the initial state in which no body of a session response has
  settled as JSON other than \<^verbatim>\<open>null\<close>, every chat request carries \<^verbatim>\<open>"default"\<close>.
\<close>

theorem session_id_sent:
  "currentSessionId (init_state v0 tx h dis) = Some (JStr (lit ''default'')) \<and>
   sent_session_id (chat_request m sid) = map_option stringify sid \<and>
   (trim (inputValue s) \<noteq> [] \<and> \<not> isWaitingResponse s \<longrightarrow>
      requests (handleSend w s) =
        requests s @ [chat_request (trim (inputValue s)) (currentSessionId s)]) \<and>
   (no_token_stored w (init_state v0 tx h dis) evs \<longrightarrow>
      (\<forall>q\<in>set (requests (run w (init_state v0 tx h dis) evs)).
         url q = lit ''/api/chat'' \<longrightarrow> sent_session_id q = Some (JStr (lit ''default''))))"
proof -
  have "default_inv (init_state v0 tx h dis)"
    by (simp add: default_inv_def init_state_def)
  then have "no_token_stored w (init_state v0 tx h dis) evs \<Longrightarrow>
      default_inv (run w (init_state v0 tx h dis) evs)"
    by (rule default_inv_run)
  then show ?thesis
    by (auto simp: default_inv_def list_all_iff sent_session_id_chat handleSend_fires init_state_def)
qed

theorem session_id_sent_witness:
  "no_token_stored demo_window (init_state [WelcomeMessage] [] 24 True) demo_failed_start \<and>
   requests (run demo_window demo_page demo_failed_start) =
     [new_session_request, chat_request (lit ''hi'') (Some (JStr (lit ''default'')))] \<and>
   sent_session_id (chat_request (lit ''hi'') (Some (JStr (lit ''default'')))) =
     Some (JStr (lit ''default'')) \<and>
   trim (inputValue demo_typed) \<noteq> [] \<and> \<not> isWaitingResponse demo_typed \<and>
   requests (handleSend demo_window demo_typed) =
     requests demo_typed @ [chat_request (trim (inputValue demo_typed)) (currentSessionId demo_typed)]"
proof -
  have q: "no_token_stored demo_window (init_state [WelcomeMessage] [] 24 True) demo_failed_start"
    by (simp add: demo_failed_start_def)
  have h3: "trim (inputValue demo_typed) \<noteq> []" by (simp add: demo_typed_ready lit_nonempty)
  have h4: "\<not> isWaitingResponse demo_typed" by (simp add: demo_typed_ready)
  from session_id_sent [of "[WelcomeMessage]" "[]" 24 True "lit ''hi''"
      "Some (JStr (lit ''default''))" demo_typed demo_window demo_failed_start]
    q h3 h4 demo_failed_start_requests
  show ?thesis by simp
qed

text \<open>
  C10, a request without the identifier. The identifier is not present in every request:
  when the first acquisition is answered ok with the body \<^verbatim>\<open>{}\<close>, the identifier becomes
  undefined, and the next chat request has no \<^verbatim>\<open>session_id\<close> key.
\<close>

theorem session_id_absent_counterexample:
  "requests (run demo_window demo_page demo_empty_reply) =
     [new_session_request,
      \<lparr> url = lit ''/api/chat'', body = Some (JObj [(lit ''message'', JStr (lit ''hi''))]) \<rparr>] \<and>
   sent_session_id
     \<lparr> url = lit ''/api/chat'', body = Some (JObj [(lit ''message'', JStr (lit ''hi''))]) \<rparr> = None"
  by (simp add: demo_empty_reply_def demo_page_def demo_window_def run_def init_state_def
      onDOMContentLoaded_def initializeSession_def adjustTextareaHeight_def
      settle_fetch_def settle_json_def session_fetched_def session_parsed_def
      session_catch_def finish_def drop_nth_def
      updateSendButton_def handleSend_def removeWelcome_def remove_match_def addMessage_User
      addLoadingIndicator_def Let_def trim_def is_ws_def lit_def
      chat_request_def chat_body_def sent_session_id_def)

end
